theory Spec2Isabelle
  imports Main "HOL-Library.Word"
begin

unbundle bit_operations_syntax

section \<open>rcwtool: the reset configuration word of utils/rcwtool.c\<close>

type_synonym u8 = "8 word"
type_synonym u32 = "32 word"

subsection \<open>Constants and the boot media enumeration\<close>

definition DEFAULT_EEPROM_ADDRESS :: int where
  "DEFAULT_EEPROM_ADDRESS = 0x50"

definition MAX_BUFSZ :: nat where
  "MAX_BUFSZ = 60"

definition IDX_HELP :: nat where "IDX_HELP = 0"
definition IDX_ADDR :: nat where "IDX_ADDR = 1"
definition IDX_BOOT :: nat where "IDX_BOOT = 2"

definition WAIT_PERIOD_50MS :: u32 where
  "WAIT_PERIOD_50MS = 7"

definition RCON_SRC_I2C :: u32 where
  "RCON_SRC_I2C = 1"

datatype boot_t = BOOT_QSPI | BOOT_SD | BOOT_MMC

text \<open>The enumerator values of \<open>boot_t\<close>.\<close>

fun boot_val :: "boot_t \<Rightarrow> u32" where
  "boot_val BOOT_QSPI = 0"
| "boot_val BOOT_SD = 2"
| "boot_val BOOT_MMC = 3"

subsection \<open>The union \<open>rcw_t\<close>: one 32-bit word, four bit-field structs\<close>

text \<open>
  The members of the four anonymous structs of \<open>rcw_t\<close>. A struct is written down as
  the source declares it: the list of its members with their widths, in declaration
  order. The second \<open>res3\<close> of \<open>rcon\<close> and the \<open>res3\<close> of \<open>qspi\<close> are
  different members of different structs with the same name.
\<close>

datatype member =
    M_phy | M_res0 | M_boot | M_src | M_res1 | M_xosc | M_res2 | M_res3 | M_pll
  | M_wait | M_speed | M_mode
  | M_port | M_ck2 | M_cas | M_por_delay | M_ckn | M_tdh | M_fsphs | M_fsdly
  | M_dllfsmpf | M_dqs_sel

type_synonym bitfields = "(member \<times> nat) list"

definition rcon :: bitfields where
  "rcon = [(M_phy, 2), (M_res0, 3), (M_boot, 3), (M_src, 1), (M_res1, 6), (M_xosc, 1),
           (M_res2, 3), (M_res3, 12), (M_pll, 1)]"

definition sd :: bitfields where
  "sd = [(M_phy, 2), (M_res0, 3), (M_boot, 3), (M_src, 1), (M_res1, 6), (M_xosc, 1),
         (M_wait, 3), (M_speed, 1), (M_res2, 11), (M_pll, 1)]"

definition mmc :: bitfields where
  "mmc = [(M_phy, 2), (M_res0, 3), (M_boot, 3), (M_src, 1), (M_res1, 6), (M_xosc, 1),
          (M_wait, 3), (M_mode, 4), (M_res2, 8), (M_pll, 1)]"

definition qspi :: bitfields where
  "qspi = [(M_phy, 2), (M_mode, 3), (M_boot, 3), (M_src, 1), (M_port, 1), (M_ck2, 1),
           (M_cas, 4), (M_xosc, 1), (M_por_delay, 3), (M_ckn, 1), (M_res3, 2), (M_tdh, 2),
           (M_fsphs, 1), (M_fsdly, 1), (M_dllfsmpf, 3), (M_dqs_sel, 2), (M_pll, 1)]"

text \<open>
  Allocation of the bit-fields of one struct inside its \<open>uint32_t\<close> storage unit, as
  GCC and Clang do it on the little-endian targets the tool is built for: the first
  declared member takes the least significant bits, each following member the bits
  right above its predecessor. \<open>alloc pos s\<close> gives every member its position and width.
\<close>

fun alloc :: "nat \<Rightarrow> bitfields \<Rightarrow> (member \<times> nat \<times> nat) list" where
  "alloc pos [] = []"
| "alloc pos ((m, w) # ms) = (m, pos, w) # alloc (pos + w) ms"

definition member_bits :: "bitfields \<Rightarrow> member \<Rightarrow> (nat \<times> nat) option" where
  "member_bits s m = map_of (alloc 0 s) m"

text \<open>
  Reading member \<open>m\<close> of struct \<open>s\<close> of the union whose \<open>boot_cfg\<close> is \<open>x\<close>, and
  assigning \<open>v\<close> to it (the assignment keeps the low \<open>w\<close> bits of \<open>v\<close> and leaves the
  other members alone). A member the struct does not declare is a compile error in C;
  the functions are only applied to declared members.
\<close>

definition bf_get :: "bitfields \<Rightarrow> member \<Rightarrow> u32 \<Rightarrow> u32" where
  "bf_get s m x =
     (case member_bits s m of
        Some (pos, w) \<Rightarrow> take_bit w (drop_bit pos x)
      | None \<Rightarrow> 0)"

definition bf_set :: "bitfields \<Rightarrow> member \<Rightarrow> u32 \<Rightarrow> u32 \<Rightarrow> u32" where
  "bf_set s m v x =
     (case member_bits s m of
        Some (pos, w) \<Rightarrow> (x AND NOT (push_bit pos (mask w))) OR push_bit pos (take_bit w v)
      | None \<Rightarrow> x)"

text \<open>
  A whole struct value: the values of its members in declaration order. \<open>pack\<close> lays
  them out in the storage unit, \<open>unpack\<close> reads them all back. A struct value is
  well formed when it has one value per member and each value fits the member's width.
\<close>

fun pack :: "nat \<Rightarrow> bitfields \<Rightarrow> u32 list \<Rightarrow> u32" where
  "pack pos ((m, w) # ms) (v # vs) = push_bit pos (take_bit w v) OR pack (pos + w) ms vs"
| "pack pos _ _ = 0"

fun unpack :: "nat \<Rightarrow> bitfields \<Rightarrow> u32 \<Rightarrow> u32 list" where
  "unpack pos [] x = []"
| "unpack pos ((m, w) # ms) x = take_bit w (drop_bit pos x) # unpack (pos + w) ms x"

fun well_formed :: "bitfields \<Rightarrow> u32 list \<Rightarrow> bool" where
  "well_formed [] [] = True"
| "well_formed ((m, w) # ms) (v # vs) = (unat v < 2 ^ w \<and> well_formed ms vs)"
| "well_formed _ _ = False"

definition storage_bits :: "bitfields \<Rightarrow> nat" where
  "storage_bits s = sum_list (map snd s)"

subsection \<open>Byte order: the \<open>data[4]\<close> member, \<open>htole32\<close> and \<open>le32toh\<close>\<close>

datatype byte_order = Little_Endian | Big_Endian

text \<open>The bytes of a word, least significant first, and the word of such bytes.\<close>

fun le_bytes :: "nat \<Rightarrow> u32 \<Rightarrow> u8 list" where
  "le_bytes 0 x = []"
| "le_bytes (Suc n) x = ucast x # le_bytes n (drop_bit 8 x)"

fun le_word :: "u8 list \<Rightarrow> u32" where
  "le_word [] = 0"
| "le_word (b # bs) = ucast b OR push_bit 8 (le_word bs)"

text \<open>
  The union overlays \<open>data[4]\<close> and \<open>boot_cfg\<close>: on a little-endian host \<open>data[0]\<close>
  is the least significant byte of \<open>boot_cfg\<close>, on a big-endian host the most
  significant one.
\<close>

definition data_of :: "byte_order \<Rightarrow> u32 \<Rightarrow> u8 list" where
  "data_of host x = (case host of Little_Endian \<Rightarrow> le_bytes 4 x | Big_Endian \<Rightarrow> rev (le_bytes 4 x))"

definition boot_cfg_of :: "byte_order \<Rightarrow> u8 list \<Rightarrow> u32" where
  "boot_cfg_of host bs = (case host of Little_Endian \<Rightarrow> le_word bs | Big_Endian \<Rightarrow> le_word (rev bs))"

definition bswap_32 :: "u32 \<Rightarrow> u32" where
  "bswap_32 x = le_word (rev (le_bytes 4 x))"

definition htole32 :: "byte_order \<Rightarrow> u32 \<Rightarrow> u32" where
  "htole32 host x = (case host of Little_Endian \<Rightarrow> x | Big_Endian \<Rightarrow> bswap_32 x)"

definition le32toh :: "byte_order \<Rightarrow> u32 \<Rightarrow> u32" where
  "le32toh host x = (case host of Little_Endian \<Rightarrow> x | Big_Endian \<Rightarrow> bswap_32 x)"

subsection \<open>Interpretation of field values (\<open>wait_period_to_ms\<close>, \<open>*_to_str\<close>, \<open>print_rcw\<close>)\<close>

fun wait_period_to_ms :: "u32 \<Rightarrow> u32" where
  "wait_period_to_ms p =
     (if p = 1 then 5
      else if p = 2 then 10
      else if p = 3 then 20
      else if p = 4 then 35
      else if p = WAIT_PERIOD_50MS then 50
      else 0)"

fun boot_to_str :: "u32 \<Rightarrow> string" where
  "boot_to_str boot =
     (if boot = 0 then ''QSPI'' else if boot = 2 then ''SD'' else if boot = 3 then ''MMC''
      else ''?'')"

fun src_to_str :: "u32 \<Rightarrow> string" where
  "src_to_str src =
     (if src = 0 then ''parallel'' else if src = RCON_SRC_I2C then ''I2C'' else ''?'')"

fun xosc_to_str :: "u32 \<Rightarrow> string" where
  "xosc_to_str xosc =
     (if xosc = 0 then ''differential/crystal'' else if xosc = 1 then ''bypass'' else ''?'')"

fun pll_to_str :: "u32 \<Rightarrow> string" where
  "pll_to_str pll = (if pll = 0 then ''PLL@IRC'' else if pll = 1 then ''IRC@48MHz'' else ''?'')"

fun phy_to_str :: "u32 \<Rightarrow> string" where
  "phy_to_str phy =
     (if phy = 0 then ''RMII'' else if phy = 1 then ''SGMII'' else if phy = 2 then ''RGMII''
      else if phy = 3 then ''No PHY'' else ''?'')"

text \<open>One line of the report: a label with a string, or the \<open>WAIT\<close> line with its number.\<close>

datatype report_line = Label string string | Wait_ms u32

definition print_rcw :: "u32 \<Rightarrow> report_line list" where
  "print_rcw rcw =
     [Label ''PHY'' (phy_to_str (bf_get rcon M_phy rcw)),
      Label ''BOOT'' (boot_to_str (bf_get rcon M_boot rcw)),
      Label ''SRC'' (src_to_str (bf_get rcon M_src rcw)),
      Label ''XOSC'' (xosc_to_str (bf_get rcon M_xosc rcw)),
      Label ''PLL'' (pll_to_str (bf_get rcon M_pll rcw))]
     @ (if bf_get rcon M_boot rcw = boot_val BOOT_SD then
          [Wait_ms (wait_period_to_ms (bf_get sd M_wait rcw)),
           Label ''SPEED'' (if bf_get sd M_speed rcw \<noteq> 0 then ''high'' else ''default'')]
        else [])"

subsection \<open>The platform: libmcp2221, the C library and the I2C bus\<close>

text \<open>
  Modelled from the spec: the status code and the bus state of libmcp2221, whose header
  \<open>libmcp2221.h\<close> is not among the sources. The specification takes the library as an
  opaque transport that gives a status back; the tool tells only \<open>MCP2221_SUCCESS\<close>
  from every other status and \<open>MCP2221_I2C_IDLE\<close> from every other bus state.
\<close>

datatype mcp2221_error = MCP2221_SUCCESS | MCP2221_FAILURE int

datatype mcp2221_i2c_state_t = MCP2221_I2C_IDLE | MCP2221_I2C_BUSY

datatype message =
    Banner | Help | Illegal_address int | No_devices | Found int | Found_devices int
  | Prompt int | Illegal_device_number | Cannot_open | Cannot_get_state | Cannot_set_divider
  | Cannot_read_RCW mcp2221_error | Cannot_write_RCW mcp2221_error
  | RCW_value u32 | RCW_report "report_line list"

datatype libcall =
    Mcp2221_init | Mcp2221_exit | Mcp2221_find | Mcp2221_open | Mcp2221_open_byIndex int
  | Mcp2221_i2cState | Mcp2221_i2cCancel | Mcp2221_i2cDivider nat

text \<open>
  What the program does to the outside, in order: lines on stdout and stderr, calls into
  libmcp2221, and I2C transfers (address, bytes written, number of bytes to read, status,
  bytes read).
\<close>

datatype event =
    Stdout message
  | Stderr message
  | Call libcall
  | I2c_transfer int "u8 list" nat mcp2221_error "u8 list"

text \<open>
  Everything the program takes from outside its source file. The I2C bus with the EEPROM on
  it is a state of type \<open>'b\<close> and \<open>p_i2cWriteRead\<close> is the transfer function of
  libmcp2221 on it: it gets the address, the bytes to write and the number of bytes to read,
  and gives the status, the bytes delivered into the read buffer (by index) and the new bus
  state. \<open>p_sscanf_x\<close> is \<open>sscanf\<close> with format \<open>%x\<close>: the value it stores, or
  \<open>None\<close> when it stores nothing. \<open>p_changed\<close> is the indeterminate value that the
  automatic variable \<open>changed\<close> of \<open>main\<close> holds before its first assignment (its
  declaration has no initialiser). \<open>p_host\<close> is the byte order of the host.
\<close>

record 'b platform =
  p_host :: byte_order
  p_sscanf_x :: "string \<Rightarrow> int option"
  p_find :: int
  p_scanf_d :: "int option"
  p_open :: bool
  p_i2cState :: "mcp2221_error \<times> mcp2221_i2c_state_t"
  p_i2cDivider :: mcp2221_error
  p_i2cWriteRead :: "'b \<Rightarrow> int \<Rightarrow> u8 list \<Rightarrow> nat \<Rightarrow> mcp2221_error \<times> (nat \<Rightarrow> u8) \<times> 'b"
  p_changed :: bool

text \<open>The state threaded through the program: the bus and the events so far.\<close>

type_synonym 'b dev = "'b \<times> event list"

definition emit :: "event \<Rightarrow> 'b dev \<Rightarrow> 'b dev" where
  "emit e s = (fst s, snd s @ [e])"

definition mcp2221_i2cWriteRead ::
  "('b, 'z) platform_scheme \<Rightarrow> 'b dev \<Rightarrow> int \<Rightarrow> u8 list \<Rightarrow> nat \<Rightarrow> mcp2221_error \<times> u8 list \<times> 'b dev" where
  "mcp2221_i2cWriteRead P s address w_buf r_len =
     (case p_i2cWriteRead P (fst s) address w_buf r_len of
        (res, rx, bus') \<Rightarrow>
          (res, map rx [0..<r_len],
           emit (I2c_transfer address w_buf r_len res (map rx [0..<r_len])) (bus', snd s)))"

subsection \<open>EEPROM transactions\<close>

definition at24c01_read ::
  "('b, 'z) platform_scheme \<Rightarrow> 'b dev \<Rightarrow> int \<Rightarrow> u8 \<Rightarrow> nat \<Rightarrow> mcp2221_error \<times> u8 list \<times> 'b dev" where
  "at24c01_read P s address offset r_len = mcp2221_i2cWriteRead P s address [offset] r_len"

text \<open>
  \<open>memcpy\<close> of \<open>n\<close> bytes of \<open>src\<close> into the array \<open>dst\<close> from index \<open>pos\<close>.
  Running past the end of either array is undefined behaviour in C: \<open>None\<close>.
\<close>

definition memcpy :: "u8 list \<Rightarrow> nat \<Rightarrow> u8 list \<Rightarrow> nat \<Rightarrow> u8 list option" where
  "memcpy dst pos src n =
     (if pos + n \<le> length dst \<and> n \<le> length src
      then Some (take pos dst @ take n src @ drop (pos + n) dst)
      else None)"

text \<open>
  \<open>at24c01_write\<close> assembles the offset and the payload in the local array
  \<open>wbuf[MAX_BUFSZ+1]\<close> (its bytes before the assignments are not read; the model starts
  it with zeros) and sends the first \<open>w_len + 1\<close> bytes. There is no test of \<open>w_len\<close>
  in the function. The result is \<open>None\<close> when the copy is undefined behaviour.
\<close>

definition at24c01_write ::
  "('b, 'z) platform_scheme \<Rightarrow> 'b dev \<Rightarrow> int \<Rightarrow> u8 \<Rightarrow> u8 list \<Rightarrow> nat \<Rightarrow> (mcp2221_error \<times> 'b dev) option" where
  "at24c01_write P s address offset w_buf w_len =
     (case memcpy ((replicate (MAX_BUFSZ + 1) 0)[0 := offset]) 1 w_buf w_len of
        None \<Rightarrow> None
      | Some wbuf \<Rightarrow>
          (case mcp2221_i2cWriteRead P s address (take (w_len + 1) wbuf) 0 of
             (res, rx, s') \<Rightarrow> Some (res, s')))"

definition s32g_rcw_read ::
  "('b, 'z) platform_scheme \<Rightarrow> 'b dev \<Rightarrow> int \<Rightarrow> mcp2221_error \<times> u32 \<times> 'b dev" where
  "s32g_rcw_read P s address =
     (case at24c01_read P s address 0 4 of
        (res, data, s') \<Rightarrow> (res, le32toh (p_host P) (boot_cfg_of (p_host P) data), s'))"

definition s32g_rcw_write ::
  "('b, 'z) platform_scheme \<Rightarrow> 'b dev \<Rightarrow> int \<Rightarrow> u32 \<Rightarrow> (mcp2221_error \<times> 'b dev) option" where
  "s32g_rcw_write P s address rcw =
     at24c01_write P s address 0 (data_of (p_host P) (htole32 (p_host P) rcw)) 4"

subsection \<open>The update policy of \<open>main\<close>\<close>

text \<open>
  The four conditional assignments of \<open>main\<close> between the first read and the test of
  \<open>changed\<close>, each on the pair of the word and the flag.
\<close>

definition policy_src :: "u32 \<times> bool \<Rightarrow> u32 \<times> bool" where
  "policy_src = (\<lambda>(rcw, changed).
     if bf_get rcon M_src rcw \<noteq> RCON_SRC_I2C
     then (bf_set rcon M_src RCON_SRC_I2C rcw, True)
     else (rcw, changed))"

definition policy_boot :: "boot_t \<Rightarrow> u32 \<times> bool \<Rightarrow> u32 \<times> bool" where
  "policy_boot boot_media = (\<lambda>(rcw, changed).
     if bf_get rcon M_boot rcw \<noteq> boot_val boot_media
     then (bf_set rcon M_boot (boot_val boot_media) 0, True)
     else (rcw, changed))"

definition policy_sd_speed :: "u32 \<times> bool \<Rightarrow> u32 \<times> bool" where
  "policy_sd_speed = (\<lambda>(rcw, changed).
     if bf_get sd M_speed rcw = 0
     then (bf_set sd M_speed 1 rcw, True)
     else (rcw, changed))"

definition policy_sd_wait :: "u32 \<times> bool \<Rightarrow> u32 \<times> bool" where
  "policy_sd_wait = (\<lambda>(rcw, changed).
     if bf_get sd M_wait rcw \<noteq> WAIT_PERIOD_50MS
     then (bf_set sd M_wait WAIT_PERIOD_50MS rcw, True)
     else (rcw, changed))"

definition policy_sd :: "u32 \<times> bool \<Rightarrow> u32 \<times> bool" where
  "policy_sd = (\<lambda>(rcw, changed).
     if bf_get rcon M_boot rcw = boot_val BOOT_SD
     then policy_sd_wait (policy_sd_speed (rcw, changed))
     else (rcw, changed))"

definition policy :: "boot_t \<Rightarrow> u32 \<times> bool \<Rightarrow> u32 \<times> bool" where
  "policy boot_media st = policy_sd (policy_boot boot_media (policy_src st))"

text \<open>
  A word that needs none of the assignments for the target: \<open>src\<close> is I2C, \<open>boot\<close> is
  the target and, when the target is SD, \<open>speed\<close> is 1 and \<open>wait\<close> is 7.
\<close>

definition compliant :: "boot_t \<Rightarrow> u32 \<Rightarrow> bool" where
  "compliant boot_media rcw =
     (bf_get rcon M_src rcw = RCON_SRC_I2C \<and> bf_get rcon M_boot rcw = boot_val boot_media
      \<and> (if boot_media = BOOT_SD
         then bf_get sd M_speed rcw = 1 \<and> bf_get sd M_wait rcw = WAIT_PERIOD_50MS
         else True))"

subsection \<open>\<open>main\<close>\<close>

text \<open>
  What \<open>getopt_long\<close> returns in one round of the option loop: 0 for a long option, with
  \<open>option_index\<close> and \<open>optarg\<close>, or a character (\<open>h\<close> for the short option, \<open>?\<close> for
  an argument it does not know).
\<close>

datatype getopt_ret = Long_option nat string | Short_option char

text \<open>
  The option loop on the rounds of \<open>getopt_long\<close>, from the current \<open>boot_media\<close> and
  \<open>eeprom_address\<close>: \<open>None\<close> when help was asked for (\<open>main\<close> returns 0 there),
  the final two values otherwise.
\<close>

fun option_loop ::
  "(string \<Rightarrow> int option) \<Rightarrow> getopt_ret list \<Rightarrow> boot_t \<Rightarrow> int \<Rightarrow> (boot_t \<times> int) option" where
  "option_loop scan [] boot_media eeprom_address = Some (boot_media, eeprom_address)"
| "option_loop scan (Long_option option_index optarg # rest) boot_media eeprom_address =
     (if option_index = IDX_HELP then None
      else if option_index = IDX_ADDR then
        option_loop scan rest boot_media
          (case scan optarg of Some v \<Rightarrow> v | None \<Rightarrow> eeprom_address)
      else if option_index = IDX_BOOT then
        option_loop scan rest
          (if optarg = ''qspi'' then BOOT_QSPI
           else if optarg = ''sd'' then BOOT_SD
           else if optarg = ''mmc'' then BOOT_MMC
           else boot_media)
          eeprom_address
      else option_loop scan rest boot_media eeprom_address)"
| "option_loop scan (Short_option c # rest) boot_media eeprom_address =
     (if c = CHR ''h'' then None else option_loop scan rest boot_media eeprom_address)"

text \<open>How \<open>main\<close> ends: it returns a value, or it has run into undefined behaviour.\<close>

datatype outcome = Return int | Undefined_behaviour

text \<open>Finding and opening the device: \<open>Some\<close> when \<open>main\<close> returns in this part.\<close>

definition main_open :: "('b, 'z) platform_scheme \<Rightarrow> 'b dev \<Rightarrow> outcome option \<times> 'b dev" where
  "main_open P s0 =
     (let s1 = emit (Call Mcp2221_find) (emit (Call Mcp2221_init) s0);
          count = p_find P
      in if count = 0 then
           (Some (Return (- 1)), emit (Call Mcp2221_exit) (emit (Stdout No_devices) s1))
         else
           let s2 = emit (Stdout (Found count)) s1 in
           if count = 1 then
             (let s3 = emit (Call Mcp2221_open) s2 in
              if \<not> p_open P then
                (Some (Return (- 1)), emit (Call Mcp2221_exit) (emit (Stderr Cannot_open) s3))
              else (None, s3))
           else
             (let s3 = emit (Stdout (Prompt (count - 1))) (emit (Stdout (Found_devices count)) s2);
                  num = (case p_scanf_d P of Some n \<Rightarrow> n | None \<Rightarrow> 0)
              in if num < 0 \<or> num \<ge> count then
                   (Some (Return (- 1)),
                    emit (Call Mcp2221_exit) (emit (Stderr Illegal_device_number) s3))
                 else
                   let s4 = emit (Call (Mcp2221_open_byIndex num)) s3 in
                   if \<not> p_open P then
                     (Some (Return (- 1)), emit (Call Mcp2221_exit) (emit (Stderr Cannot_open) s4))
                   else (None, s4)))"

text \<open>The bus state query, the cancel and the clock divider.\<close>

definition main_bus :: "('b, 'z) platform_scheme \<Rightarrow> 'b dev \<Rightarrow> outcome option \<times> 'b dev" where
  "main_bus P s0 =
     (let s1 = emit (Call Mcp2221_i2cState) s0 in
      if fst (p_i2cState P) \<noteq> MCP2221_SUCCESS then
        (Some (Return (- 1)), emit (Call Mcp2221_exit) (emit (Stderr Cannot_get_state) s1))
      else
        let s2 = (if snd (p_i2cState P) \<noteq> MCP2221_I2C_IDLE
                  then emit (Call Mcp2221_i2cCancel) s1 else s1);
            s3 = emit (Call (Mcp2221_i2cDivider 27)) s2
        in if p_i2cDivider P \<noteq> MCP2221_SUCCESS then
             (Some (Return (- 1)), emit (Call Mcp2221_exit) (emit (Stderr Cannot_set_divider) s3))
           else (None, s3))"

text \<open>The body of \<open>if (changed)\<close>: the write, the read after it and the second report.\<close>

definition main_write_back ::
  "('b, 'z) platform_scheme \<Rightarrow> int \<Rightarrow> u32 \<Rightarrow> 'b dev \<Rightarrow> outcome option \<times> 'b dev" where
  "main_write_back P eeprom_address rcw s0 =
     (case s32g_rcw_write P s0 eeprom_address rcw of
        None \<Rightarrow> (Some Undefined_behaviour, s0)
      | Some (res, s1) \<Rightarrow>
          if res \<noteq> MCP2221_SUCCESS then
            (Some (Return (- 1)), emit (Call Mcp2221_exit) (emit (Stderr (Cannot_write_RCW res)) s1))
          else
            (case s32g_rcw_read P s1 eeprom_address of
               (res2, rcw2, s2) \<Rightarrow>
                 if res2 \<noteq> MCP2221_SUCCESS then
                   (Some (Return (- 1)),
                    emit (Call Mcp2221_exit) (emit (Stderr (Cannot_read_RCW res2)) s2))
                 else
                   (None, emit (Stdout (RCW_report (print_rcw rcw2))) (emit (Stdout (RCW_value rcw2)) s2))))"

text \<open>From the first read of the word to the end of \<open>main\<close>.\<close>

definition main_rcw ::
  "('b, 'z) platform_scheme \<Rightarrow> boot_t \<Rightarrow> int \<Rightarrow> 'b dev \<Rightarrow> outcome \<times> 'b dev" where
  "main_rcw P boot_media eeprom_address s0 =
     (case s32g_rcw_read P s0 eeprom_address of
        (res, rcw0, s1) \<Rightarrow>
          if res \<noteq> MCP2221_SUCCESS then
            (Return (- 1), emit (Call Mcp2221_exit) (emit (Stderr (Cannot_read_RCW res)) s1))
          else
            let s2 = emit (Stdout (RCW_report (print_rcw rcw0))) (emit (Stdout (RCW_value rcw0)) s1) in
            (case policy boot_media (rcw0, p_changed P) of
               (rcw, changed) \<Rightarrow>
                 if changed then
                   (case main_write_back P eeprom_address rcw s2 of
                      (Some out, s3) \<Rightarrow> (out, s3)
                    | (None, s3) \<Rightarrow> (Return 0, emit (Call Mcp2221_exit) s3))
                 else (Return 0, emit (Call Mcp2221_exit) s2)))"

definition main :: "('b, 'z) platform_scheme \<Rightarrow> getopt_ret list \<Rightarrow> 'b \<Rightarrow> outcome \<times> 'b dev" where
  "main P opts bus =
     (let s0 = emit (Stdout Banner) (bus, []) in
      case option_loop (p_sscanf_x P) opts BOOT_SD DEFAULT_EEPROM_ADDRESS of
        None \<Rightarrow> (Return 0, emit (Stdout Help) s0)
      | Some (boot_media, eeprom_address) \<Rightarrow>
          if eeprom_address < 0 \<or> eeprom_address > 0x7f then
            (Return (- 1), emit (Stderr (Illegal_address eeprom_address)) s0)
          else
            (case main_open P s0 of
               (Some out, s1) \<Rightarrow> (out, s1)
             | (None, s1) \<Rightarrow>
                 (case main_bus P s1 of
                    (Some out, s2) \<Rightarrow> (out, s2)
                  | (None, s2) \<Rightarrow> main_rcw P boot_media eeprom_address s2)))"

subsection \<open>Reading the events of a run\<close>

fun is_transfer :: "event \<Rightarrow> bool" where
  "is_transfer (I2c_transfer a w n res r) = True"
| "is_transfer _ = False"

definition transfers :: "event list \<Rightarrow> event list" where
  "transfers es = filter is_transfer es"

fun transfer_ok :: "event \<Rightarrow> bool" where
  "transfer_ok (I2c_transfer a w n res r) = (res = MCP2221_SUCCESS)"
| "transfer_ok _ = True"

text \<open>
  A transfer that reads nothing and is acknowledged is a write of the bytes after the
  offset byte. \<open>reread_after_write\<close> holds of a list of transfers when each such write
  is followed at once by a transfer to the same address that sends the same offset byte
  alone and reads as many bytes as were written.
\<close>

fun reread_after_write :: "event list \<Rightarrow> bool" where
  "reread_after_write [] = True"
| "reread_after_write (e # es) =
     ((case e of
         I2c_transfer a w n res r \<Rightarrow>
           (if n = 0 \<and> res = MCP2221_SUCCESS then
              (case es of
                 I2c_transfer a' w' n' res' r' # _ \<Rightarrow> a' = a \<and> w' = take 1 w \<and> n' = length w - 1
               | _ \<Rightarrow> False)
            else True)
       | _ \<Rightarrow> True)
      \<and> reread_after_write es)"

fun is_boot_option :: "getopt_ret \<Rightarrow> bool" where
  "is_boot_option (Long_option option_index optarg) = (option_index = IDX_BOOT)"
| "is_boot_option (Short_option c) = False"

subsection \<open>A concrete platform for running the program\<close>

text \<open>
  \<open>sscanf\<close> with format \<open>%x\<close> for the concrete runs: white space, an optional sign, an
  optional \<open>0x\<close> before a hexadecimal digit, then the digits up to the first other
  character; nothing is stored when there is no digit. The value is stored through the
  \<open>int\<close> pointer, so it is read back as a signed 32-bit number.
\<close>

definition is_space :: "char \<Rightarrow> bool" where
  "is_space c = (c \<in> set [CHR '' '', CHR 0x09, CHR 0x0A, CHR 0x0B, CHR 0x0C, CHR 0x0D])"

definition hex_digit :: "char \<Rightarrow> nat option" where
  "hex_digit c =
     (let n = (of_char c :: nat) in
      if 48 \<le> n \<and> n \<le> 57 then Some (n - 48)
      else if 97 \<le> n \<and> n \<le> 102 then Some (n - 87)
      else if 65 \<le> n \<and> n \<le> 70 then Some (n - 55)
      else None)"

fun hex_value :: "nat \<Rightarrow> string \<Rightarrow> nat" where
  "hex_value acc [] = acc"
| "hex_value acc (c # cs) =
     (case hex_digit c of None \<Rightarrow> acc | Some d \<Rightarrow> hex_value (16 * acc + d) cs)"

definition sscanf_x :: "string \<Rightarrow> int option" where
  "sscanf_x s =
     (let s1 = dropWhile is_space s;
          neg = (case s1 of c # r \<Rightarrow> c = CHR ''-'' | [] \<Rightarrow> False);
          s2 = (case s1 of c # r \<Rightarrow> if c = CHR ''-'' \<or> c = CHR ''+'' then r else s1 | [] \<Rightarrow> s1);
          s3 = (case s2 of
                  z # x # d # r \<Rightarrow>
                    if z = CHR ''0'' \<and> (x = CHR ''x'' \<or> x = CHR ''X'') \<and> hex_digit d \<noteq> None
                    then d # r else s2
                | _ \<Rightarrow> s2)
      in case s3 of
           [] \<Rightarrow> None
         | c # r \<Rightarrow>
             (case hex_digit c of
                None \<Rightarrow> None
              | Some d \<Rightarrow>
                  Some (sint (if neg then - (word_of_nat (hex_value 0 s3) :: u32)
                              else word_of_nat (hex_value 0 s3)))))"

text \<open>
  A 128-byte EEPROM as a stand-in for the hardware in concrete runs: a transfer takes its
  first written byte as the offset, stores the bytes after it unless the write-protect pin
  is set, and delivers the bytes from the offset on. Every transfer is acknowledged.
\<close>

record eeprom =
  e_mem :: "nat \<Rightarrow> u8"
  e_wp :: bool

fun e_store :: "(nat \<Rightarrow> u8) \<Rightarrow> nat \<Rightarrow> u8 list \<Rightarrow> nat \<Rightarrow> u8" where
  "e_store m a [] = m"
| "e_store m a (b # bs) = e_store (m(a mod 128 := b)) (Suc a) bs"

definition e_transfer :: "eeprom \<Rightarrow> int \<Rightarrow> u8 list \<Rightarrow> nat \<Rightarrow> mcp2221_error \<times> (nat \<Rightarrow> u8) \<times> eeprom" where
  "e_transfer e address w_buf r_len =
     (case w_buf of
        [] \<Rightarrow> (MCP2221_SUCCESS, (\<lambda>i. e_mem e (i mod 128)), e)
      | offset # payload \<Rightarrow>
          (MCP2221_SUCCESS, (\<lambda>i. e_mem e ((unat offset + i) mod 128)),
           if e_wp e then e else e\<lparr>e_mem := e_store (e_mem e) (unat offset) payload\<rparr>))"

text \<open>
  One device, opened, with an idle bus, on a little-endian host. The argument is the
  value \<open>changed\<close> holds before its first assignment.
\<close>

definition bench :: "bool \<Rightarrow> eeprom platform" where
  "bench garbage =
     \<lparr>p_host = Little_Endian, p_sscanf_x = sscanf_x, p_find = 1, p_scanf_d = None,
      p_open = True, p_i2cState = (MCP2221_SUCCESS, MCP2221_I2C_IDLE),
      p_i2cDivider = MCP2221_SUCCESS, p_i2cWriteRead = e_transfer, p_changed = garbage\<rparr>"

definition blank :: "bool \<Rightarrow> eeprom" where
  "blank wp = \<lparr>e_mem = (\<lambda>_. 0), e_wp = wp\<rparr>"

text \<open>An EEPROM that holds the word \<open>x\<close> at offset 0, least significant byte first.\<close>

definition programmed :: "u32 \<Rightarrow> eeprom" where
  "programmed x = \<lparr>e_mem = e_store (\<lambda>_. 0) 0 (le_bytes 4 x), e_wp = False\<rparr>"

section \<open>Properties\<close>

subsection \<open>Bytes and words\<close>

lemma le_bytes_4:
  "le_bytes 4 x = [ucast x, ucast (drop_bit 8 x), ucast (drop_bit 16 x), ucast (drop_bit 24 x)]"
proof -
  have "le_bytes (Suc (Suc (Suc (Suc 0)))) x =
      [ucast x, ucast (drop_bit 8 x), ucast (drop_bit 16 x), ucast (drop_bit 24 x)]"
    by simp
  moreover have "(4::nat) = Suc (Suc (Suc (Suc 0)))"
    by simp
  ultimately show ?thesis
    by (rule ssubst [where P = "\<lambda>k. le_bytes k x = _", rotated])
qed

lemma bit_le_word4:
  "bit (le_word [a, b, c, d]) n \<longleftrightarrow>
     (n < 8 \<and> bit a n) \<or> (8 \<le> n \<and> n < 16 \<and> bit b (n - 8)) \<or>
     (16 \<le> n \<and> n < 24 \<and> bit c (n - 16)) \<or> (24 \<le> n \<and> n < 32 \<and> bit d (n - 24))"
  apply (simp only: le_word.simps bit_or_iff bit_push_bit_iff bit_ucast_iff)
  apply (auto simp add: bit_simps dest: bit_imp_le_length)
  done

lemma bit_low_byte: "bit (ucast (x::u32) :: u8) n \<longleftrightarrow> n < 8 \<and> bit x n"
  by (auto simp add: bit_simps)

lemma le_word_le_bytes4: "le_word (le_bytes 4 x) = x"
proof (rule bit_word_eqI)
  fix n assume "n < LENGTH(32)"
  then have n: "n < 32" by simp
  have *: "bit (le_word (le_bytes 4 x)) n \<longleftrightarrow>
      (n < 8 \<and> (n < 8 \<and> bit x n)) \<or>
      (8 \<le> n \<and> n < 16 \<and> (n - 8 < 8 \<and> bit x (8 + (n - 8)))) \<or>
      (16 \<le> n \<and> n < 24 \<and> (n - 16 < 8 \<and> bit x (16 + (n - 16)))) \<or>
      (24 \<le> n \<and> n < 32 \<and> (n - 24 < 8 \<and> bit x (24 + (n - 24))))"
    by (simp only: le_bytes_4 bit_le_word4 bit_low_byte bit_drop_bit_eq comp_apply)
  consider "n < 8" | "8 \<le> n" "n < 16" | "16 \<le> n" "n < 24" | "24 \<le> n" "n < 32"
    using n by linarith
  then show "bit (le_word (le_bytes 4 x)) n = bit x n"
  proof cases
    case 1
    then show ?thesis unfolding * by simp
  next
    case 2
    moreover from 2 have "n - 8 < 8" by linarith
    ultimately show ?thesis unfolding * by simp
  next
    case 3
    moreover from 3 have "n - 16 < 8" by linarith
    ultimately show ?thesis unfolding * by simp
  next
    case 4
    moreover from 4 have "n - 24 < 8" by linarith
    ultimately show ?thesis unfolding * by simp
  qed
qed

lemma byte0_le_word4: "ucast (le_word [a, b, c, d]) = a"
  by (rule bit_word_eqI, simp only: bit_low_byte bit_le_word4) (auto dest: bit_imp_le_length)

lemma byte1_le_word4: "ucast (drop_bit 8 (le_word [a, b, c, d])) = b"
  by (rule bit_word_eqI, simp only: bit_low_byte bit_drop_bit_eq comp_apply bit_le_word4)
    (auto dest: bit_imp_le_length)

lemma byte2_le_word4: "ucast (drop_bit 16 (le_word [a, b, c, d])) = c"
  by (rule bit_word_eqI, simp only: bit_low_byte bit_drop_bit_eq comp_apply bit_le_word4)
    (auto dest: bit_imp_le_length)

lemma byte3_le_word4: "ucast (drop_bit 24 (le_word [a, b, c, d])) = d"
  by (rule bit_word_eqI, simp only: bit_low_byte bit_drop_bit_eq comp_apply bit_le_word4)
    (auto dest: bit_imp_le_length)

lemma le_bytes_le_word4: "le_bytes 4 (le_word [a, b, c, d]) = [a, b, c, d]"
  by (simp only: le_bytes_4 byte0_le_word4 byte1_le_word4 byte2_le_word4 byte3_le_word4)

lemma bswap_32_bytes: "le_bytes 4 (bswap_32 x) = rev (le_bytes 4 x)"
proof -
  have "rev (le_bytes 4 x) =
      [ucast (drop_bit 24 x), ucast (drop_bit 16 x), ucast (drop_bit 8 x), ucast x]"
    by (simp only: le_bytes_4 rev.simps append.simps)
  then show ?thesis
    by (simp only: bswap_32_def le_bytes_le_word4)
qed

text \<open>What \<open>s32g_rcw_write\<close> puts on the wire and what \<open>s32g_rcw_read\<close> makes of four bytes.\<close>

lemma wire_of_word: "data_of h (htole32 h x) = le_bytes 4 x"
  by (cases h)
    (simp_all only: data_of_def htole32_def bswap_32_bytes byte_order.case rev_rev_ident)

lemma word_of_wire: "le32toh h (boot_cfg_of h [a, b, c, d]) = le_word [a, b, c, d]"
  by (cases h)
    (simp_all only: boot_cfg_of_def le32toh_def bswap_32_def byte_order.case rev.simps
      append.simps le_bytes_le_word4)

lemma word_of_wire_of_word: "le32toh h (boot_cfg_of h (data_of h (htole32 h x))) = x"
proof -
  have "le32toh h (boot_cfg_of h (le_bytes 4 x)) = le_word (le_bytes 4 x)"
    unfolding le_bytes_4 by (rule word_of_wire)
  then show ?thesis
    by (simp only: wire_of_word le_word_le_bytes4)
qed

text \<open>
  C7. The word is little-endian on the wire, whatever the byte order of the host: byte
  \<open>i\<close> sent by \<open>s32g_rcw_write\<close> is bits \<open>8i\<close> to \<open>8i+7\<close> of the word, and
  \<open>s32g_rcw_read\<close> puts byte \<open>i\<close> received at bits \<open>8i\<close> to \<open>8i+7\<close>. The word
  \<open>0x01020304\<close> is sent as \<open>04 03 02 01\<close>, and these bytes are read as \<open>0x01020304\<close>.
\<close>

theorem rcw_wire_little_endian:
  "data_of h (htole32 h x) = [ucast x, ucast (drop_bit 8 x), ucast (drop_bit 16 x), ucast (drop_bit 24 x)]
   \<and> le32toh h (boot_cfg_of h [a, b, c, d]) =
       ucast a OR push_bit 8 (ucast b) OR push_bit 16 (ucast c) OR push_bit 24 (ucast d)
   \<and> data_of h (htole32 h 0x01020304) = [0x04, 0x03, 0x02, 0x01]
   \<and> le32toh h (boot_cfg_of h [0x04, 0x03, 0x02, 0x01]) = 0x01020304"
proof (intro conjI)
  show "data_of h (htole32 h x) =
      [ucast x, ucast (drop_bit 8 x), ucast (drop_bit 16 x), ucast (drop_bit 24 x)]"
    by (simp only: wire_of_word le_bytes_4)
  show "le32toh h (boot_cfg_of h [a, b, c, d]) =
      ucast a OR push_bit 8 (ucast b) OR push_bit 16 (ucast c) OR push_bit 24 (ucast d)"
    unfolding word_of_wire by (rule bit_word_eqI) (auto simp add: bit_simps)
  show "data_of h (htole32 h 0x01020304) = [0x04, 0x03, 0x02, 0x01]"
    unfolding wire_of_word le_bytes_4 by simp
  show "le32toh h (boot_cfg_of h [0x04, 0x03, 0x02, 0x01]) = 0x01020304"
    unfolding word_of_wire by simp
qed

subsection \<open>Bit-fields\<close>

lemma storage_bits_views:
  "storage_bits rcon = 32" "storage_bits sd = 32" "storage_bits mmc = 32" "storage_bits qspi = 32"
  by (simp_all add: storage_bits_def rcon_def sd_def mmc_def qspi_def)

lemma rcon_bits:
  "member_bits rcon M_phy = Some (0, 2)" "member_bits rcon M_boot = Some (5, 3)"
  "member_bits rcon M_src = Some (8, 1)" "member_bits rcon M_xosc = Some (15, 1)"
  "member_bits rcon M_pll = Some (31, 1)"
  by (simp_all add: member_bits_def rcon_def)

lemma sd_bits:
  "member_bits sd M_phy = Some (0, 2)" "member_bits sd M_boot = Some (5, 3)"
  "member_bits sd M_src = Some (8, 1)" "member_bits sd M_pll = Some (31, 1)"
  "member_bits sd M_wait = Some (16, 3)" "member_bits sd M_speed = Some (19, 1)"
  by (simp_all add: member_bits_def sd_def)

lemma mmc_bits:
  "member_bits mmc M_phy = Some (0, 2)" "member_bits mmc M_boot = Some (5, 3)"
  "member_bits mmc M_src = Some (8, 1)" "member_bits mmc M_pll = Some (31, 1)"
  by (simp_all add: member_bits_def mmc_def)

lemma qspi_bits:
  "member_bits qspi M_phy = Some (0, 2)" "member_bits qspi M_boot = Some (5, 3)"
  "member_bits qspi M_src = Some (8, 1)" "member_bits qspi M_pll = Some (31, 1)"
  by (simp_all add: member_bits_def qspi_def)

text \<open>
  C9. In each of the four structs of the union, \<open>phy\<close> is bits 0 to 1, \<open>boot\<close> bits 5 to
  7, \<open>src\<close> bit 8 and \<open>pll\<close> bit 31 (position and width, from the declaration order),
  so each of these members reads the same through \<open>rcon\<close>, \<open>sd\<close>, \<open>mmc\<close> and
  \<open>qspi\<close>.
\<close>

theorem shared_members_same_bits:
  "map (\<lambda>s. member_bits s M_phy) [rcon, sd, mmc, qspi] = replicate 4 (Some (0, 2))
   \<and> map (\<lambda>s. member_bits s M_boot) [rcon, sd, mmc, qspi] = replicate 4 (Some (5, 3))
   \<and> map (\<lambda>s. member_bits s M_src) [rcon, sd, mmc, qspi] = replicate 4 (Some (8, 1))
   \<and> map (\<lambda>s. member_bits s M_pll) [rcon, sd, mmc, qspi] = replicate 4 (Some (31, 1))
   \<and> map (\<lambda>s. bf_get s M_phy x) [sd, mmc, qspi] = replicate 3 (bf_get rcon M_phy x)
   \<and> map (\<lambda>s. bf_get s M_boot x) [sd, mmc, qspi] = replicate 3 (bf_get rcon M_boot x)
   \<and> map (\<lambda>s. bf_get s M_src x) [sd, mmc, qspi] = replicate 3 (bf_get rcon M_src x)
   \<and> map (\<lambda>s. bf_get s M_pll x) [sd, mmc, qspi] = replicate 3 (bf_get rcon M_pll x)"
  by (simp add: bf_get_def rcon_bits sd_bits mmc_bits qspi_bits numeral_3_eq_3 numeral_Bit0 [of "Num.Bit0 Num.One", where ?'a = nat])

subsection \<open>Struct values: packing and unpacking\<close>

lemma bit_pack_above: "bit (pack pos s vs) n \<Longrightarrow> pos \<le> n"
  by (induction pos s vs rule: pack.induct) (auto simp add: bit_simps)

lemma unpack_cong_above:
  "(\<And>n. pos \<le> n \<Longrightarrow> bit x n = bit y n) \<Longrightarrow> unpack pos s x = unpack pos s y"
proof (induction s arbitrary: pos)
  case Nil
  then show ?case by simp
next
  case (Cons a s)
  obtain m w where a: "a = (m, w)"
    by (cases a)
  have "take_bit w (drop_bit pos x) = take_bit w (drop_bit pos y)"
    by (rule bit_word_eqI) (simp add: bit_simps Cons.prems)
  moreover have "unpack (pos + w) s x = unpack (pos + w) s y"
    by (rule Cons.IH) (simp add: Cons.prems)
  ultimately show ?case
    by (simp add: a)
qed

lemma fits_take_bit: "unat (v::u32) < 2 ^ w \<Longrightarrow> take_bit w v = v"
  by (simp add: word_unat_eq_iff unsigned_take_bit_eq take_bit_nat_eq_self)

lemma unpack_pack:
  "well_formed s vs \<Longrightarrow> pos + storage_bits s \<le> 32 \<Longrightarrow> unpack pos s (pack pos s vs) = vs"
proof (induction s vs arbitrary: pos rule: well_formed.induct)
  case 1
  then show ?case by simp
next
  case (2 m w ms v vs)
  let ?P = "pack (pos + w) ms vs"
  let ?x = "push_bit pos (take_bit w v) OR ?P"
  from "2.prems" have fit: "take_bit w v = v" and wf: "well_formed ms vs"
    and le: "pos + w + storage_bits ms \<le> 32"
    by (simp_all add: fits_take_bit storage_bits_def)
  have head: "take_bit w (drop_bit pos ?x) = v"
  proof (rule bit_word_eqI)
    fix n assume "n < LENGTH(32)"
    have "\<not> bit ?P (pos + n)" if "n < w"
      using bit_pack_above [of "pos + w" ms vs "pos + n"] that by auto
    moreover have "bit v n \<Longrightarrow> n < w"
      using fit by (metis bit_take_bit_iff)
    moreover have "n < w \<Longrightarrow> pos + n < 32"
      using le by simp
    ultimately show "bit (take_bit w (drop_bit pos ?x)) n = bit v n"
      by (auto simp add: bit_simps fit)
  qed
  have "unpack (pos + w) ms ?x = unpack (pos + w) ms ?P"
    by (rule unpack_cong_above) (auto simp add: bit_simps)
  also have "\<dots> = vs"
    using wf le by (rule "2.IH")
  finally show ?case
    using head by simp
qed simp_all

text \<open>
  C6. A well-formed value of any of the four structs, laid out in the word, sent as
  \<open>s32g_rcw_write\<close> sends it and read back as \<open>s32g_rcw_read\<close> reads these four bytes,
  unpacks under the same struct to the value it was.
\<close>

theorem rcw_round_trip:
  assumes "s \<in> {rcon, sd, mmc, qspi}" and "well_formed s v"
  shows "unpack 0 s (le32toh h (boot_cfg_of h (data_of h (htole32 h (pack 0 s v))))) = v"
proof -
  from assms(1) have "0 + storage_bits s \<le> 32"
    by (auto simp add: storage_bits_views)
  with assms(2) have "unpack 0 s (pack 0 s v) = v"
    by (rule unpack_pack)
  then show ?thesis
    by (simp only: word_of_wire_of_word)
qed

theorem rcw_round_trip_witness:
  "sd \<in> {rcon, sd, mmc, qspi} \<and> well_formed sd [1, 0, 2, 1, 0, 0, 7, 1, 0, 0]
   \<and> pack 0 sd [1, 0, 2, 1, 0, 0, 7, 1, 0, 0] = 0xF0141
   \<and> unpack 0 sd (le32toh Big_Endian (boot_cfg_of Big_Endian
        (data_of Big_Endian (htole32 Big_Endian (pack 0 sd [1, 0, 2, 1, 0, 0, 7, 1, 0, 0])))))
       = [1, 0, 2, 1, 0, 0, 7, 1, 0, 0]"
proof -
  have m: "sd \<in> {rcon, sd, mmc, qspi}"
    by simp
  have w: "well_formed sd [1, 0, 2, 1, 0, 0, 7, 1, 0, 0]"
    by (simp add: sd_def)
  have p: "pack 0 sd [1, 0, 2, 1, 0, 0, 7, 1, 0, 0] = 0xF0141"
    by code_simp
  from m w p rcw_round_trip [OF m w, of Big_Endian] show ?thesis
    by (intro conjI)
qed

subsection \<open>The wait period\<close>

text \<open>
  C4, as the code has it. \<open>wait_period_to_ms\<close> is total; the codes 0, 1, 2, 3, 4 and 7 give
  0, 5, 10, 20, 35 and 50 milliseconds, and every other argument, the reserved codes 5 and
  6 among them, gives 0, the result of code 0.
\<close>

theorem wait_period_to_ms_table:
  "map wait_period_to_ms [0, 1, 2, 3, 4, 7] = [0, 5, 10, 20, 35, 50]
   \<and> (p \<notin> {1, 2, 3, 4, 7} \<longrightarrow> wait_period_to_ms p = 0)"
  by (simp add: WAIT_PERIOD_50MS_def)

theorem wait_period_to_ms_table_witness:
  "(5::u32) \<notin> {1, 2, 3, 4, 7} \<and> wait_period_to_ms 5 = 0
   \<and> map wait_period_to_ms [0, 1, 2, 3, 4, 7] = [0, 5, 10, 20, 35, 50]"
  using wait_period_to_ms_table [of 5] by simp

text \<open>
  C4, as the specification has it, fails: for the reserved codes 5 and 6 the function
  returns the number 0, which is also its result for the valid code 0, and the report of
  an SD word with \<open>wait = 5\<close> shows a wait of 0 milliseconds.
\<close>

theorem wait_period_reserved_is_zero:
  "wait_period_to_ms 5 = wait_period_to_ms 0 \<and> wait_period_to_ms 6 = wait_period_to_ms 0
   \<and> wait_period_to_ms 0 = 0
   \<and> bf_get sd M_wait 0x50040 = 5
   \<and> print_rcw 0x50040 ! 5 = Wait_ms 0"
  by code_simp

subsection \<open>The update policy\<close>

lemma field_other:
  fixes x :: u32
  assumes "p2 + w2 \<le> p1 \<or> p1 + w1 \<le> p2"
  shows "take_bit w1 (drop_bit p1 ((x AND NOT (push_bit p2 (mask w2))) OR push_bit p2 (take_bit w2 v)))
     = take_bit w1 (drop_bit p1 x)"
  using assms by (intro bit_word_eqI) (auto simp add: bit_simps dest: bit_imp_le_length)

lemma bf_get_set_other:
  assumes "member_bits s m = Some (p1, w1)" and "member_bits s' m' = Some (p2, w2)"
    and "p2 + w2 \<le> p1 \<or> p1 + w1 \<le> p2"
  shows "bf_get s m (bf_set s' m' v x) = bf_get s m x"
  using assms(3)
  by (simp only: bf_get_def bf_set_def assms(1,2) option.case prod.case field_other)

lemma boot_after_src: "bf_get rcon M_boot (bf_set rcon M_src v w) = bf_get rcon M_boot w"
  by (rule bf_get_set_other [OF rcon_bits(2) rcon_bits(3)]) simp

lemma wait_after_speed: "bf_get sd M_wait (bf_set sd M_speed v w) = bf_get sd M_wait w"
  by (rule bf_get_set_other [OF sd_bits(5) sd_bits(6)]) simp

lemma one_bit: "take_bit 1 (x::u32) = 0 \<or> take_bit 1 x = 1"
  by (simp add: mod_2_eq_odd)

lemma speed_values: "bf_get sd M_speed w = 0 \<or> bf_get sd M_speed w = 1"
  unfolding bf_get_def sd_bits option.case prod.case by (rule one_bit)

lemma policy_src_eq:
  "policy_src (w, c) =
     (if bf_get rcon M_src w \<noteq> RCON_SRC_I2C then (bf_set rcon M_src RCON_SRC_I2C w, True) else (w, c))"
  by (simp add: policy_src_def)

lemma policy_boot_eq:
  "policy_boot t (w, c) =
     (if bf_get rcon M_boot w \<noteq> boot_val t then (bf_set rcon M_boot (boot_val t) 0, True) else (w, c))"
  by (simp add: policy_boot_def)

lemma policy_sd_changed:
  "snd (policy_sd (w, c)) \<longleftrightarrow>
     c \<or> (bf_get rcon M_boot w = boot_val BOOT_SD
          \<and> (bf_get sd M_speed w \<noteq> 1 \<or> bf_get sd M_wait w \<noteq> WAIT_PERIOD_50MS))"
  using speed_values [of w]
  by (auto simp add: policy_sd_def policy_sd_speed_def policy_sd_wait_def wait_after_speed)

text \<open>
  The flag after the four assignments: its value before them (which \<open>main\<close> never sets),
  or the word was not compliant.
\<close>

lemma policy_changed: "snd (policy t (w, c)) \<longleftrightarrow> c \<or> \<not> compliant t w"
proof (cases "bf_get rcon M_src w = RCON_SRC_I2C")
  case src: True
  show ?thesis
  proof (cases "bf_get rcon M_boot w = boot_val t")
    case True
    with src show ?thesis
      by (cases t) (auto simp add: policy_def policy_src_eq policy_boot_eq policy_sd_changed compliant_def)
  next
    case False
    with src show ?thesis
      by (simp add: policy_def policy_src_eq policy_boot_eq policy_sd_changed compliant_def)
  qed
next
  case False
  then show ?thesis
    by (simp add: policy_def policy_src_eq policy_boot_eq policy_sd_changed compliant_def)
qed

lemma boot_set_in_zero:
  "bf_set rcon M_boot (boot_val t) 0 = push_bit 5 (boot_val t)"
  unfolding bf_set_def rcon_bits option.case prod.case
  by (cases t) simp_all

text \<open>
  After a switch of the boot media the word does not depend on what it was: the zeroing
  comes after the assignment to \<open>src\<close> and takes it back.
\<close>

lemma policy_switch:
  assumes "bf_get rcon M_boot w \<noteq> boot_val t"
  shows "policy t (w, c) = (case t of BOOT_QSPI \<Rightarrow> 0 | BOOT_SD \<Rightarrow> 0xF0040 | BOOT_MMC \<Rightarrow> 0x60, True)"
proof -
  have "policy_boot t (policy_src (w, c)) = (push_bit 5 (boot_val t), True)"
    using assms by (simp add: policy_src_eq policy_boot_eq boot_after_src boot_set_in_zero)
  moreover have "policy_sd (push_bit 5 (boot_val BOOT_QSPI), True) = (0, True)"
    "policy_sd (push_bit 5 (boot_val BOOT_SD), True) = (0xF0040, True)"
    "policy_sd (push_bit 5 (boot_val BOOT_MMC), True) = (0x60, True)"
    by code_simp+
  ultimately show ?thesis
    by (cases t) (simp_all add: policy_def)
qed

text \<open>
  C1 says that the flag is the disjunction of the steps, false on a compliant word and
  false when the policy is applied to its own result. The code misses this twice. The
  first run on the word 0 with target SD ends with \<open>0xF0040\<close>, where \<open>src = 0\<close>, so
  the policy applied to its own result, with the flag false before, sets the flag again.
  And on the compliant word \<open>0xF0140\<close> the flag is whatever \<open>changed\<close> held before:
  \<open>main\<close> declares it without a value, and when that value is true the run writes the
  word it has read back to the EEPROM.
\<close>

theorem policy_second_run_changes:
  "policy BOOT_SD (0, False) = (0xF0040, True)
   \<and> policy BOOT_SD (fst (policy BOOT_SD (0, False)), False) = (0xF0140, True)
   \<and> compliant BOOT_SD 0xF0140
   \<and> policy BOOT_SD (0xF0140, True) = (0xF0140, True)
   \<and> policy BOOT_SD (0xF0140, False) = (0xF0140, False)
   \<and> transfers (snd (snd (main (bench True) [] (programmed 0xF0140)))) =
       [I2c_transfer 0x50 [0] 4 MCP2221_SUCCESS [0x40, 0x01, 0x0F, 0x00],
        I2c_transfer 0x50 [0, 0x40, 0x01, 0x0F, 0x00] 0 MCP2221_SUCCESS [],
        I2c_transfer 0x50 [0] 4 MCP2221_SUCCESS [0x40, 0x01, 0x0F, 0x00]]
   \<and> transfers (snd (snd (main (bench False) [] (programmed 0xF0140)))) =
       [I2c_transfer 0x50 [0] 4 MCP2221_SUCCESS [0x40, 0x01, 0x0F, 0x00]]"
  by code_simp

text \<open>
  C2 says that after a switch of the boot media the word has \<open>boot\<close> equal to the target
  and \<open>src = 1\<close>. The code misses the second: from the QSPI word \<open>0xFFFFFF1F\<close>
  (\<open>boot = 0\<close>, every other bit set) and target SD the result is \<open>0xF0040\<close>, with
  \<open>boot = 2\<close> and all higher bits but the SD defaults zero, and with \<open>src = 0\<close>.
\<close>

theorem policy_switch_loses_src:
  "bf_get rcon M_boot 0xFFFFFF1F = boot_val BOOT_QSPI
   \<and> fst (policy BOOT_SD (0xFFFFFF1F, False)) = 0xF0040
   \<and> bf_get rcon M_boot 0xF0040 = 2
   \<and> bf_get rcon M_src 0xF0040 = 0"
  by code_simp

subsection \<open>EEPROM transactions\<close>

lemma upt_0_4: "[0..<4] = [0, 1, 2, 3]"
  by code_simp

lemma s32g_rcw_read_eq:
  "s32g_rcw_read P (bus, tr) a =
     (case p_i2cWriteRead P bus a [0] 4 of
        (res, rx, bus') \<Rightarrow>
          (res, le_word [rx 0, rx 1, rx 2, rx 3],
           (bus', tr @ [I2c_transfer a [0] 4 res [rx 0, rx 1, rx 2, rx 3]])))"
  by (simp add: s32g_rcw_read_def at24c01_read_def mcp2221_i2cWriteRead_def emit_def upt_0_4
      word_of_wire split: prod.splits)

lemma memcpy_wbuf:
  assumes "w_len \<le> MAX_BUFSZ" and "w_len \<le> length w_buf"
  shows "\<exists>rest. memcpy ((replicate (MAX_BUFSZ + 1) 0)[0 := off]) 1 w_buf w_len
           = Some (off # take w_len w_buf @ rest)"
proof -
  have "take 1 ((replicate (MAX_BUFSZ + 1) 0)[0 := off]) = [off]"
    by (simp add: MAX_BUFSZ_def take_Suc_conv_app_nth)
  with assms show ?thesis
    by (simp add: memcpy_def)
qed

lemma at24c01_write_some:
  assumes "w_len \<le> MAX_BUFSZ" and "w_len \<le> length w_buf"
  shows "at24c01_write P s a off w_buf w_len =
     (case mcp2221_i2cWriteRead P s a (off # take w_len w_buf) 0 of (res, rx, s') \<Rightarrow> Some (res, s'))"
proof -
  from memcpy_wbuf [OF assms] obtain rest where
    m: "memcpy ((replicate (MAX_BUFSZ + 1) 0)[0 := off]) 1 w_buf w_len
          = Some (off # take w_len w_buf @ rest)" ..
  have "take (w_len + 1) (off # take w_len w_buf @ rest) = off # take w_len w_buf"
    using assms(2) by simp
  then show ?thesis
    by (simp only: at24c01_write_def m option.case)
qed

lemma at24c01_write_none:
  assumes "MAX_BUFSZ < w_len"
  shows "at24c01_write P s a off w_buf w_len = None"
  using assms by (simp add: at24c01_write_def memcpy_def)

lemma length_le_bytes: "length (le_bytes n x) = n"
  by (induction n arbitrary: x) simp_all

lemma s32g_rcw_write_eq:
  "s32g_rcw_write P (bus, tr) a x =
     (case p_i2cWriteRead P bus a (0 # le_bytes 4 x) 0 of
        (res, rx, bus') \<Rightarrow> Some (res, (bus', tr @ [I2c_transfer a (0 # le_bytes 4 x) 0 res []])))"
proof -
  have "s32g_rcw_write P (bus, tr) a x =
      (case mcp2221_i2cWriteRead P (bus, tr) a (0 # take 4 (le_bytes 4 x)) 0 of
         (res, rx, s') \<Rightarrow> Some (res, s'))"
    unfolding s32g_rcw_write_def wire_of_word
    by (rule at24c01_write_some) (simp_all add: MAX_BUFSZ_def length_le_bytes)
  then show ?thesis
    by (simp add: mcp2221_i2cWriteRead_def emit_def length_le_bytes split: prod.splits)
qed

text \<open>
  C8, as the code has it. \<open>at24c01_write\<close> makes no test of the payload length. When the
  caller passes at most \<open>MAX_BUFSZ\<close> bytes (and the payload array holds that many), the
  offset and the payload fit the buffer and exactly these bytes are sent; with a longer
  payload the copy runs past the buffer, which is undefined behaviour, not an error
  return.
\<close>

theorem at24c01_write_bounds:
  "(w_len \<le> MAX_BUFSZ \<and> w_len \<le> length w_buf \<longrightarrow>
      at24c01_write P s a off w_buf w_len =
        (case mcp2221_i2cWriteRead P s a (off # take w_len w_buf) 0 of
           (res, rx, s') \<Rightarrow> Some (res, s')))
   \<and> (MAX_BUFSZ < w_len \<longrightarrow> at24c01_write P s a off w_buf w_len = None)"
  using at24c01_write_some [of w_len w_buf P s a off] at24c01_write_none [of w_len P s a off w_buf]
  by blast

theorem at24c01_write_bounds_witness:
  "(4::nat) \<le> MAX_BUFSZ \<and> 4 \<le> length [0x40, 0x00, 0x0F, 0x00 :: u8]
   \<and> at24c01_write (bench False) (blank False, []) 0x50 0 [0x40, 0x00, 0x0F, 0x00] 4 =
       (case mcp2221_i2cWriteRead (bench False) (blank False, []) 0x50 [0, 0x40, 0x00, 0x0F, 0x00] 0 of
          (res, rx, s') \<Rightarrow> Some (res, s'))
   \<and> MAX_BUFSZ < 61
   \<and> at24c01_write (bench False) (blank False, []) 0x50 0 (replicate 61 0xAA) 61 = None"
proof -
  have h1: "(4::nat) \<le> MAX_BUFSZ" and h2: "4 \<le> length [0x40, 0x00, 0x0F, 0x00 :: u8]"
    and h3: "MAX_BUFSZ < 61"
    by (simp_all add: MAX_BUFSZ_def)
  from at24c01_write_bounds [of 4 "[0x40, 0x00, 0x0F, 0x00]" "bench False" "(blank False, [])" "0x50" 0]
    at24c01_write_bounds [of 61 "replicate 61 0xAA" "bench False" "(blank False, [])" "0x50" 0]
    h1 h2 h3
  show ?thesis
    by simp
qed

text \<open>
  C8, as the specification has it, fails: a payload of 61 bytes is not turned down by a
  test before the transfer; the call has no status to give, the copy has left the
  buffer.
\<close>

theorem at24c01_write_unchecked:
  "MAX_BUFSZ < 61
   \<and> at24c01_write (bench False) (blank False, []) 0x50 0 (replicate 61 0xAA) 61 = None"
  by code_simp

subsection \<open>The transfers of a run\<close>

lemma transfers_simps:
  "transfers [] = []"
  "transfers (es @ es') = transfers es @ transfers es'"
  "transfers (Stdout m # es) = transfers es"
  "transfers (Stderr m # es) = transfers es"
  "transfers (Call c # es) = transfers es"
  "transfers (I2c_transfer a w n res r # es) = I2c_transfer a w n res r # transfers es"
  by (simp_all add: transfers_def)

lemma emit_pair: "emit e (bus, tr) = (bus, tr @ [e])"
  by (simp add: emit_def)

lemma main_open_transfers:
  "transfers (snd (snd (main_open P (bus, tr)))) = transfers tr"
  by (simp add: main_open_def emit_pair transfers_simps Let_def split: option.splits)

lemma main_bus_transfers:
  "transfers (snd (snd (main_bus P (bus, tr)))) = transfers tr"
  by (simp add: main_bus_def emit_pair transfers_simps Let_def)

text \<open>The run from the first read on, given what the three possible transfers answer.\<close>

lemma main_rcw_run:
  assumes r0: "p_i2cWriteRead P bus a [0] 4 = (res0, rx0, bus0)"
    and v0: "v0 = le_word [rx0 0, rx0 1, rx0 2, rx0 3]"
    and pol: "policy bm (v0, p_changed P) = (x, ch)"
    and w1: "p_i2cWriteRead P bus0 a (0 # le_bytes 4 x) 0 = (res1, rx1, bus1)"
    and r2: "p_i2cWriteRead P bus1 a [0] 4 = (res2, rx2, bus2)"
    and v2: "v2 = le_word [rx2 0, rx2 1, rx2 2, rx2 3]"
  shows "main_rcw P bm a (bus, tr) =
    (if res0 \<noteq> MCP2221_SUCCESS then
       (Return (- 1),
        (bus0, tr @ [I2c_transfer a [0] 4 res0 [rx0 0, rx0 1, rx0 2, rx0 3],
                     Stderr (Cannot_read_RCW res0), Call Mcp2221_exit]))
     else if \<not> ch then
       (Return 0,
        (bus0, tr @ [I2c_transfer a [0] 4 res0 [rx0 0, rx0 1, rx0 2, rx0 3],
                     Stdout (RCW_value v0), Stdout (RCW_report (print_rcw v0)), Call Mcp2221_exit]))
     else if res1 \<noteq> MCP2221_SUCCESS then
       (Return (- 1),
        (bus1, tr @ [I2c_transfer a [0] 4 res0 [rx0 0, rx0 1, rx0 2, rx0 3],
                     Stdout (RCW_value v0), Stdout (RCW_report (print_rcw v0)),
                     I2c_transfer a (0 # le_bytes 4 x) 0 res1 [],
                     Stderr (Cannot_write_RCW res1), Call Mcp2221_exit]))
     else if res2 \<noteq> MCP2221_SUCCESS then
       (Return (- 1),
        (bus2, tr @ [I2c_transfer a [0] 4 res0 [rx0 0, rx0 1, rx0 2, rx0 3],
                     Stdout (RCW_value v0), Stdout (RCW_report (print_rcw v0)),
                     I2c_transfer a (0 # le_bytes 4 x) 0 res1 [],
                     I2c_transfer a [0] 4 res2 [rx2 0, rx2 1, rx2 2, rx2 3],
                     Stderr (Cannot_read_RCW res2), Call Mcp2221_exit]))
     else
       (Return 0,
        (bus2, tr @ [I2c_transfer a [0] 4 res0 [rx0 0, rx0 1, rx0 2, rx0 3],
                     Stdout (RCW_value v0), Stdout (RCW_report (print_rcw v0)),
                     I2c_transfer a (0 # le_bytes 4 x) 0 res1 [],
                     I2c_transfer a [0] 4 res2 [rx2 0, rx2 1, rx2 2, rx2 3],
                     Stdout (RCW_value v2), Stdout (RCW_report (print_rcw v2)), Call Mcp2221_exit])))"
proof -
  have R0: "s32g_rcw_read P (bus, tr) a =
      (res0, v0, (bus0, tr @ [I2c_transfer a [0] 4 res0 [rx0 0, rx0 1, rx0 2, rx0 3]]))"
    unfolding v0 by (simp add: s32g_rcw_read_eq r0 del: le_word.simps)
  have W1: "s32g_rcw_write P (bus0, t) a x =
      Some (res1, (bus1, t @ [I2c_transfer a (0 # le_bytes 4 x) 0 res1 []]))" for t
    by (simp add: s32g_rcw_write_eq w1)
  have R2: "s32g_rcw_read P (bus1, t) a =
      (res2, v2, (bus2, t @ [I2c_transfer a [0] 4 res2 [rx2 0, rx2 1, rx2 2, rx2 3]]))" for t
    unfolding v2 by (simp add: s32g_rcw_read_eq r2 del: le_word.simps)
  show ?thesis
    by (simp add: main_rcw_def main_write_back_def R0 W1 R2 pol emit_pair Let_def)
qed

lemma main_rcw_transfers:
  assumes "transfers tr = []"
  shows "reread_after_write (transfers (snd (snd (main_rcw P bm a (bus, tr)))))
    \<and> length (transfers (snd (snd (main_rcw P bm a (bus, tr))))) \<le> 3
    \<and> transfers (snd (snd (main_rcw P bm a (bus, tr)))) \<noteq> []
    \<and> (fst (main_rcw P bm a (bus, tr)) = Return 0
         \<longleftrightarrow> list_all transfer_ok (transfers (snd (snd (main_rcw P bm a (bus, tr))))))"
proof -
  obtain res0 rx0 bus0 where r0: "p_i2cWriteRead P bus a [0] 4 = (res0, rx0, bus0)"
    by (cases "p_i2cWriteRead P bus a [0] 4")
  define v0 where "v0 = le_word [rx0 0, rx0 1, rx0 2, rx0 3]"
  obtain x ch where pol: "policy bm (v0, p_changed P) = (x, ch)"
    by (cases "policy bm (v0, p_changed P)")
  obtain res1 rx1 bus1 where
    w1: "p_i2cWriteRead P bus0 a (0 # le_bytes 4 x) 0 = (res1, rx1, bus1)"
    by (cases "p_i2cWriteRead P bus0 a (0 # le_bytes 4 x) 0")
  obtain res2 rx2 bus2 where r2: "p_i2cWriteRead P bus1 a [0] 4 = (res2, rx2, bus2)"
    by (cases "p_i2cWriteRead P bus1 a [0] 4")
  define v2 where "v2 = le_word [rx2 0, rx2 1, rx2 2, rx2 3]"
  note run = main_rcw_run [OF r0 v0_def pol w1 r2 v2_def, where tr = tr]
  show ?thesis
    unfolding run using assms
    by (simp add: transfers_simps length_le_bytes)
qed

subsection \<open>The write and the read after it\<close>

lemma main_transfers:
  "transfers (snd (snd (main P opts bus))) = []
   \<or> (reread_after_write (transfers (snd (snd (main P opts bus))))
      \<and> length (transfers (snd (snd (main P opts bus)))) \<le> 3
      \<and> (fst (main P opts bus) = Return 0
           \<longleftrightarrow> list_all transfer_ok (transfers (snd (snd (main P opts bus))))))"
proof (cases "option_loop (p_sscanf_x P) opts BOOT_SD DEFAULT_EEPROM_ADDRESS")
  case None
  then show ?thesis
    by (simp add: main_def emit_pair transfers_simps)
next
  case (Some p)
  obtain bm a where p: "p = (bm, a)"
    by (cases p)
  show ?thesis
  proof (cases "a < 0 \<or> 0x7f < a")
    case True
    with Some p show ?thesis
      by (auto simp add: main_def emit_pair transfers_simps)
  next
    case range: False
    obtain o1 b1 t1 where m1: "main_open P (bus, [Stdout Banner]) = (o1, (b1, t1))"
      by (cases "main_open P (bus, [Stdout Banner])") auto
    have t1: "transfers t1 = []"
      using main_open_transfers [of P bus "[Stdout Banner]"] by (simp add: m1 transfers_simps)
    show ?thesis
    proof (cases o1)
      case (Some out)
      with \<open>option_loop (p_sscanf_x P) opts BOOT_SD DEFAULT_EEPROM_ADDRESS = Some p\<close> p range m1 t1
      show ?thesis
        by (simp add: main_def emit_pair)
    next
      case open_ok: None
      obtain o2 b2 t2 where m2: "main_bus P (b1, t1) = (o2, (b2, t2))"
        by (cases "main_bus P (b1, t1)") auto
      have t2: "transfers t2 = []"
        using main_bus_transfers [of P b1 t1] by (simp add: m2 t1)
      show ?thesis
      proof (cases o2)
        case (Some out)
        with \<open>option_loop (p_sscanf_x P) opts BOOT_SD DEFAULT_EEPROM_ADDRESS = Some p\<close>
          p range m1 open_ok m2 t2
        show ?thesis
          by (simp add: main_def emit_pair)
      next
        case None
        with \<open>option_loop (p_sscanf_x P) opts BOOT_SD DEFAULT_EEPROM_ADDRESS = Some p\<close>
          p range m1 open_ok m2
        have "main P opts bus = main_rcw P bm a (b2, t2)"
          by (simp add: main_def emit_pair)
        with main_rcw_transfers [OF t2, of P bm a b2] show ?thesis
          by simp
      qed
    qed
  qed
qed

text \<open>
  C3, as the code has it. In every run, a write that the library reports as done is
  followed at once by a read of four bytes from the same address and offset, and there are
  at most three transfers. The bytes read back are printed and not compared with the bytes
  written: once a transfer was made, \<open>main\<close> returns 0 exactly when every transfer of the
  run was reported as done, whatever the bytes were. A failed write or read ends the run
  with -1 and no second attempt.
\<close>

theorem main_reread_not_compared:
  "reread_after_write (transfers (snd (snd (main P opts bus))))
   \<and> length (transfers (snd (snd (main P opts bus)))) \<le> 3
   \<and> (transfers (snd (snd (main P opts bus))) \<noteq> [] \<longrightarrow>
        (fst (main P opts bus) = Return 0
          \<longleftrightarrow> list_all transfer_ok (transfers (snd (snd (main P opts bus))))))"
  using main_transfers [of P opts bus] by auto

theorem main_reread_not_compared_witness:
  "transfers (snd (snd (main (bench False) [] (blank True)))) =
     [I2c_transfer 0x50 [0] 4 MCP2221_SUCCESS [0, 0, 0, 0],
      I2c_transfer 0x50 [0, 0x40, 0x00, 0x0F, 0x00] 0 MCP2221_SUCCESS [],
      I2c_transfer 0x50 [0] 4 MCP2221_SUCCESS [0, 0, 0, 0]]
   \<and> reread_after_write (transfers (snd (snd (main (bench False) [] (blank True)))))
   \<and> list_all transfer_ok (transfers (snd (snd (main (bench False) [] (blank True)))))
   \<and> fst (main (bench False) [] (blank True)) = Return 0"
proof -
  have t: "transfers (snd (snd (main (bench False) [] (blank True)))) =
     [I2c_transfer 0x50 [0] 4 MCP2221_SUCCESS [0, 0, 0, 0],
      I2c_transfer 0x50 [0, 0x40, 0x00, 0x0F, 0x00] 0 MCP2221_SUCCESS [],
      I2c_transfer 0x50 [0] 4 MCP2221_SUCCESS [0, 0, 0, 0]]"
    by code_simp
  then have ne: "transfers (snd (snd (main (bench False) [] (blank True)))) \<noteq> []"
    and ok: "list_all transfer_ok (transfers (snd (snd (main (bench False) [] (blank True)))))"
    by simp_all
  from main_reread_not_compared [of "bench False" "[]" "blank True"] t ne ok show ?thesis
    by blast
qed

text \<open>
  C3, as the specification has it, fails: on an EEPROM that acknowledges the write and
  keeps its old content, the bytes read back (\<open>00 00 00 00\<close>) differ from the bytes
  written (\<open>40 00 0F 00\<close>); the run prints the word read back, reports no error and
  returns 0.
\<close>

theorem main_accepts_mismatch:
  "fst (main (bench False) [] (blank True)) = Return 0
   \<and> snd (snd (main (bench False) [] (blank True)))
       = [Stdout Banner, Call Mcp2221_init, Call Mcp2221_find, Stdout (Found 1), Call Mcp2221_open,
          Call Mcp2221_i2cState, Call (Mcp2221_i2cDivider 27),
          I2c_transfer 0x50 [0] 4 MCP2221_SUCCESS [0, 0, 0, 0],
          Stdout (RCW_value 0),
          Stdout (RCW_report [Label ''PHY'' ''RMII'', Label ''BOOT'' ''QSPI'', Label ''SRC'' ''parallel'',
            Label ''XOSC'' ''differential/crystal'', Label ''PLL'' ''PLL@IRC'']),
          I2c_transfer 0x50 [0, 0x40, 0x00, 0x0F, 0x00] 0 MCP2221_SUCCESS [],
          I2c_transfer 0x50 [0] 4 MCP2221_SUCCESS [0, 0, 0, 0],
          Stdout (RCW_value 0),
          Stdout (RCW_report [Label ''PHY'' ''RMII'', Label ''BOOT'' ''QSPI'', Label ''SRC'' ''parallel'',
            Label ''XOSC'' ''differential/crystal'', Label ''PLL'' ''PLL@IRC'']),
          Call Mcp2221_exit]"
  by code_simp

subsection \<open>The options\<close>

lemma option_loop_skip_addr:
  "scan arg = None \<Longrightarrow>
   option_loop scan (xs @ Long_option IDX_ADDR arg # ys) bm a = option_loop scan (xs @ ys) bm a"
  by (induction scan xs bm a rule: option_loop.induct)
    (simp_all add: IDX_HELP_def IDX_ADDR_def IDX_BOOT_def)

lemma option_loop_skip_boot:
  "tok \<notin> {''qspi'', ''sd'', ''mmc''} \<Longrightarrow>
   option_loop scan (xs @ Long_option IDX_BOOT tok # ys) bm a = option_loop scan (xs @ ys) bm a"
  by (induction scan xs bm a rule: option_loop.induct)
    (simp_all add: IDX_HELP_def IDX_ADDR_def IDX_BOOT_def)

lemma option_loop_keeps_boot:
  "\<not> list_ex is_boot_option opts \<Longrightarrow> option_loop scan opts bm a = Some (bm', a') \<Longrightarrow> bm' = bm"
  by (induction scan opts bm a rule: option_loop.induct) (auto split: if_splits)

lemma option_loop_insert_sd:
  "\<not> list_ex is_boot_option xs \<Longrightarrow>
   option_loop scan (xs @ Long_option IDX_BOOT ''sd'' # ys) BOOT_SD a
     = option_loop scan (xs @ ys) BOOT_SD a"
proof (induction xs arbitrary: a)
  case Nil
  then show ?case
    by (simp add: IDX_HELP_def IDX_ADDR_def IDX_BOOT_def)
next
  case (Cons x xs)
  then show ?case
    by (cases x) (simp_all add: IDX_HELP_def IDX_ADDR_def IDX_BOOT_def)
qed

text \<open>
  C5, as the code has it. When the address the option loop ends with is outside 0 to
  0x7f, \<open>main\<close> prints the message and returns -1 before any call into the library or
  transfer on the bus. An address argument of which \<open>sscanf\<close> stores nothing, and a
  boot-media argument other than \<open>qspi\<close>, \<open>sd\<close> and \<open>mmc\<close>, change nothing: the run
  is the run without that option.
\<close>

theorem main_argument_checks:
  "(option_loop (p_sscanf_x P) opts BOOT_SD DEFAULT_EEPROM_ADDRESS = Some (bm, a)
      \<and> (a < 0 \<or> 0x7f < a) \<longrightarrow>
      main P opts bus = (Return (- 1), (bus, [Stdout Banner, Stderr (Illegal_address a)])))
   \<and> (p_sscanf_x P arg = None \<longrightarrow>
        main P (xs @ Long_option IDX_ADDR arg # ys) bus = main P (xs @ ys) bus)
   \<and> (tok \<notin> {''qspi'', ''sd'', ''mmc''} \<longrightarrow>
        main P (xs @ Long_option IDX_BOOT tok # ys) bus = main P (xs @ ys) bus)"
proof (intro conjI impI)
  assume "option_loop (p_sscanf_x P) opts BOOT_SD DEFAULT_EEPROM_ADDRESS = Some (bm, a)
      \<and> (a < 0 \<or> 0x7f < a)"
  then show "main P opts bus = (Return (- 1), (bus, [Stdout Banner, Stderr (Illegal_address a)]))"
    by (auto simp add: main_def emit_pair)
next
  assume "p_sscanf_x P arg = None"
  then show "main P (xs @ Long_option IDX_ADDR arg # ys) bus = main P (xs @ ys) bus"
    by (simp add: main_def option_loop_skip_addr)
next
  assume "tok \<notin> {''qspi'', ''sd'', ''mmc''}"
  then show "main P (xs @ Long_option IDX_BOOT tok # ys) bus = main P (xs @ ys) bus"
    by (simp add: main_def option_loop_skip_boot del: insert_iff)
qed

theorem main_argument_checks_witness:
  "option_loop (p_sscanf_x (bench False)) [Long_option IDX_ADDR ''80''] BOOT_SD DEFAULT_EEPROM_ADDRESS
      = Some (BOOT_SD, 0x80)
   \<and> ((0x80::int) < 0 \<or> 0x7f < (0x80::int))
   \<and> main (bench False) [Long_option IDX_ADDR ''80''] (blank False)
       = (Return (- 1), (blank False, [Stdout Banner, Stderr (Illegal_address 0x80)]))
   \<and> p_sscanf_x (bench False) ''zz'' = None
   \<and> main (bench False) ([] @ Long_option IDX_ADDR ''zz'' # []) (blank False)
       = main (bench False) ([] @ []) (blank False)
   \<and> ''floppy'' \<notin> {''qspi'', ''sd'', ''mmc''}
   \<and> main (bench False) ([] @ Long_option IDX_BOOT ''floppy'' # []) (blank False)
       = main (bench False) ([] @ []) (blank False)"
proof -
  have h1: "option_loop (p_sscanf_x (bench False)) [Long_option IDX_ADDR ''80''] BOOT_SD
      DEFAULT_EEPROM_ADDRESS = Some (BOOT_SD, 0x80)"
    by code_simp
  have h2: "(0x80::int) < 0 \<or> 0x7f < (0x80::int)"
    by simp
  have h3: "p_sscanf_x (bench False) ''zz'' = None"
    by code_simp
  have h4: "''floppy'' \<notin> {''qspi'', ''sd'', ''mmc''}"
    by simp
  from main_argument_checks [of "bench False" "[Long_option IDX_ADDR ''80'']" BOOT_SD "0x80"
      "blank False" "''zz''" "[]" "[]" "''floppy''"] h1 h2 h3 h4
  show ?thesis
    by blast
qed

text \<open>
  C5, as the specification has it, fails: with the address argument \<open>zz\<close> and the boot
  media \<open>floppy\<close> the run is not stopped. It goes to the hardware with address 0x50 and
  target SD, prints no error, rewrites the word and returns 0.
\<close>

theorem main_runs_on_bad_arguments:
  "sscanf_x ''zz'' = None
   \<and> fst (main (bench False) [Long_option IDX_ADDR ''zz'', Long_option IDX_BOOT ''floppy''] (blank False))
       = Return 0
   \<and> snd (snd (main (bench False) [Long_option IDX_ADDR ''zz'', Long_option IDX_BOOT ''floppy'']
        (blank False)))
       = [Stdout Banner, Call Mcp2221_init, Call Mcp2221_find, Stdout (Found 1), Call Mcp2221_open,
          Call Mcp2221_i2cState, Call (Mcp2221_i2cDivider 27),
          I2c_transfer 0x50 [0] 4 MCP2221_SUCCESS [0, 0, 0, 0],
          Stdout (RCW_value 0),
          Stdout (RCW_report [Label ''PHY'' ''RMII'', Label ''BOOT'' ''QSPI'', Label ''SRC'' ''parallel'',
            Label ''XOSC'' ''differential/crystal'', Label ''PLL'' ''PLL@IRC'']),
          I2c_transfer 0x50 [0, 0x40, 0x00, 0x0F, 0x00] 0 MCP2221_SUCCESS [],
          I2c_transfer 0x50 [0] 4 MCP2221_SUCCESS [0x40, 0x00, 0x0F, 0x00],
          Stdout (RCW_value 0xF0040),
          Stdout (RCW_report [Label ''PHY'' ''RMII'', Label ''BOOT'' ''SD'', Label ''SRC'' ''parallel'',
            Label ''XOSC'' ''differential/crystal'', Label ''PLL'' ''PLL@IRC'', Wait_ms 50,
            Label ''SPEED'' ''high'']),
          Call Mcp2221_exit]"
  by code_simp

text \<open>
  C10. When the options hold no boot option, the run is the run with \<open>--boot=sd\<close> put
  in at any place, and the boot media the option loop ends with is SD.
\<close>

theorem default_boot_media_is_sd:
  assumes "\<not> list_ex is_boot_option (xs @ ys)"
  shows "main P (xs @ Long_option IDX_BOOT ''sd'' # ys) bus = main P (xs @ ys) bus
    \<and> (option_loop (p_sscanf_x P) (xs @ ys) BOOT_SD DEFAULT_EEPROM_ADDRESS = None
       \<or> (\<exists>a. option_loop (p_sscanf_x P) (xs @ ys) BOOT_SD DEFAULT_EEPROM_ADDRESS = Some (BOOT_SD, a)))"
proof
  from assms have "\<not> list_ex is_boot_option xs"
    by simp
  then show "main P (xs @ Long_option IDX_BOOT ''sd'' # ys) bus = main P (xs @ ys) bus"
    by (simp add: main_def option_loop_insert_sd)
next
  show "option_loop (p_sscanf_x P) (xs @ ys) BOOT_SD DEFAULT_EEPROM_ADDRESS = None
       \<or> (\<exists>a. option_loop (p_sscanf_x P) (xs @ ys) BOOT_SD DEFAULT_EEPROM_ADDRESS = Some (BOOT_SD, a))"
  proof (cases "option_loop (p_sscanf_x P) (xs @ ys) BOOT_SD DEFAULT_EEPROM_ADDRESS")
    case None
    then show ?thesis by simp
  next
    case (Some p)
    obtain bm a where "p = (bm, a)"
      by (cases p)
    with Some option_loop_keeps_boot [OF assms] show ?thesis
      by simp
  qed
qed

theorem default_boot_media_is_sd_witness:
  "\<not> list_ex is_boot_option ([Long_option IDX_ADDR ''51''] @ [])
   \<and> main (bench False) ([Long_option IDX_ADDR ''51''] @ Long_option IDX_BOOT ''sd'' # []) (blank False)
       = main (bench False) ([Long_option IDX_ADDR ''51''] @ []) (blank False)
   \<and> option_loop (p_sscanf_x (bench False)) ([Long_option IDX_ADDR ''51''] @ []) BOOT_SD
        DEFAULT_EEPROM_ADDRESS = Some (BOOT_SD, 0x51)"
proof -
  have h: "\<not> list_ex is_boot_option ([Long_option IDX_ADDR ''51''] @ [])"
    by (simp add: IDX_ADDR_def IDX_BOOT_def)
  have v: "option_loop (p_sscanf_x (bench False)) ([Long_option IDX_ADDR ''51''] @ []) BOOT_SD
        DEFAULT_EEPROM_ADDRESS = Some (BOOT_SD, 0x51)"
    by code_simp
  from default_boot_media_is_sd [OF h, of "bench False" "blank False"] h v show ?thesis
    by blast
qed

end
